theory Spec2Isabelle
  imports Main "HOL-Library.Word"
begin

unbundle bit_operations_syntax

section \<open>Data model of app.py\<close>

text \<open>
  A catalog entry is the inner dictionary of \<^verbatim>\<open>PRODUCTS\<close>; prices, stocks,
  quantities and amounts are Python integers, hence \<open>int\<close>.
\<close>

record product =
  name :: string
  price :: int
  stock :: int
  image_url :: string
  description :: string

text \<open>
  An order is the dictionary built at submission. Four keys are read with
  \<^verbatim>\<open>order[...]\<close>; \<^verbatim>\<open>delivery_zone\<close> is read with
  \<^verbatim>\<open>order.get("delivery_zone", "IN")\<close>, so it may be absent.
\<close>

record order =
  order_id :: string
  product_id :: string
  quantity :: int
  total_amount :: int
  delivery_zone :: "string option"

text \<open>
  The two module-level mutable globals. \<^verbatim>\<open>PRODUCTS\<close> is a dictionary from
  product id to entry, \<^verbatim>\<open>PROCESSED_ORDERS\<close> a set of order ids.
\<close>

record state =
  PRODUCTS :: "string \<rightharpoonup> product"
  PROCESSED_ORDERS :: "string set"

datatype py_error = KeyError

subsection \<open>Business rule constants\<close>

definition MAX_ORDER_AMOUNT :: int where
  "MAX_ORDER_AMOUNT = 5000"

definition MIN_ORDER_QUANTITY :: int where
  "MIN_ORDER_QUANTITY = 1"

definition SERVICEABLE_ZONES :: "string list" where
  "SERVICEABLE_ZONES = [''IN'']"

subsection \<open>The initial catalog and the initial state\<close>

definition initial_catalog :: "(string \<times> product) list" where
  "initial_catalog =
    [(''P001'', \<lparr>name = ''Wireless Mouse'', price = 799, stock = 15,
        image_url = ''https://cdn-icons-png.flaticon.com/512/2919/2919592.png'',
        description = ''Ergonomic wireless mouse with adjustable DPI and long battery life.''\<rparr>),
     (''P002'', \<lparr>name = ''Mechanical Keyboard'', price = 2499, stock = 5,
        image_url = ''https://cdn-icons-png.flaticon.com/512/2920/2920244.png'',
        description = ''Compact mechanical keyboard with tactile switches and RGB backlight.''\<rparr>),
     (''P003'', \<lparr>name = ''USB-C Charger'', price = 999, stock = 0,
        image_url = ''https://cdn-icons-png.flaticon.com/512/2910/2910768.png'',
        description = ''Fast charging USB-C charger compatible with phones and laptops.''\<rparr>),
     (''P004'', \<lparr>name = ''Noise Cancelling Headphones'', price = 5999, stock = 8,
        image_url = ''https://cdn-icons-png.flaticon.com/512/2921/2921822.png'',
        description = ''Over-ear headphones with active noise cancellation and rich sound.''\<rparr>),
     (''P005'', \<lparr>name = ''Laptop Stand'', price = 1299, stock = 20,
        image_url = ''https://cdn-icons-png.flaticon.com/512/2920/2920329.png'',
        description = ''Adjustable aluminum laptop stand for better posture and airflow.''\<rparr>)]"

definition initial_state :: state where
  "initial_state = \<lparr>PRODUCTS = map_of initial_catalog, PROCESSED_ORDERS = {}\<rparr>"

section \<open>Python's str() on integers\<close>

definition digit_char :: "nat \<Rightarrow> char" where
  "digit_char d = ''0123456789'' ! d"

function str_nat :: "nat \<Rightarrow> string" where
  "str_nat n = (if n < 10 then [digit_char n] else str_nat (n div 10) @ [digit_char (n mod 10)])"
  by pat_completeness auto
termination
  by (relation "measure (\<lambda>n. n)") auto

declare str_nat.simps [simp del]

definition str_int :: "int \<Rightarrow> string" where
  "str_int i = (if i < 0 then CHR ''-'' # str_nat (nat (- i)) else str_nat (nat i))"

section \<open>Business logic modules\<close>

text \<open>
  \<^verbatim>\<open>validate_order\<close> reads \<^verbatim>\<open>PROCESSED_ORDERS\<close> and mutates nothing.
  \<^verbatim>\<open>not order["order_id"]\<close> holds of a string exactly when it is empty.
\<close>

definition validate_order :: "order \<Rightarrow> state \<Rightarrow> bool \<times> string" where
  "validate_order ord s =
    (if order_id ord = [] then (False, ''Invalid Order ID'')
     else if order_id ord \<in> PROCESSED_ORDERS s then (False, ''Duplicate order detected'')
     else if quantity ord < MIN_ORDER_QUANTITY then (False, ''Order quantity below minimum threshold'')
     else if total_amount ord > MAX_ORDER_AMOUNT then (False, ''Order amount exceeds risk threshold'')
     else if (case delivery_zone ord of None \<Rightarrow> ''IN'' | Some z \<Rightarrow> z) \<notin> set SERVICEABLE_ZONES
       then (False, ''Delivery address not serviceable'')
     else (True, ''Order validated successfully''))"

text \<open>
  \<^verbatim>\<open>PRODUCTS[order["product_id"]]\<close> raises \<^verbatim>\<open>KeyError\<close> on an id that is
  not a key; nothing handles it.
\<close>

definition check_inventory :: "order \<Rightarrow> state \<Rightarrow> py_error + bool \<times> string" where
  "check_inventory ord s =
    (case PRODUCTS s (product_id ord) of
       None \<Rightarrow> Inl KeyError
     | Some p \<Rightarrow>
         if stock p \<ge> quantity ord
         then Inr (True, ''Stock available ('' @ str_int (stock p) @ '' units)'')
         else Inr (False, ''Out of stock''))"

definition process_payment :: "int \<Rightarrow> bool \<times> string" where
  "process_payment amount =
    (if amount \<le> MAX_ORDER_AMOUNT then (True, ''Payment successful'')
     else (False, ''Payment failed due to risk threshold''))"

text \<open>
  \<^verbatim>\<open>PRODUCTS[order["product_id"]]["stock"] -= order["quantity"]\<close>: the lookup comes
  first, so on a missing id the exception leaves both globals as they were. The result
  pairs what the call returns or raises with the state after it.
\<close>

definition fulfill_order :: "order \<Rightarrow> state \<Rightarrow> (py_error + string) \<times> state" where
  "fulfill_order ord s =
    (case PRODUCTS s (product_id ord) of
       None \<Rightarrow> (Inl KeyError, s)
     | Some p \<Rightarrow>
         (Inr ''Order packed successfully'',
          s\<lparr>PRODUCTS := (PRODUCTS s)(product_id ord \<mapsto> p\<lparr>stock := stock p - quantity ord\<rparr>)\<rparr>))"

definition confirm_delivery :: string where
  "confirm_delivery = ''Order delivered successfully''"

subsection \<open>Tracking identifiers\<close>

text \<open>
  \<^verbatim>\<open>uuid.uuid4()\<close> takes 16 random bytes as a 128-bit integer and overwrites the
  variant and version bits; \<^verbatim>\<open>.hex\<close> is that integer as 32 lower-case
  hexadecimal digits, most significant first. The random bytes are the parameter.
\<close>

definition uuid4 :: "128 word \<Rightarrow> 128 word" where
  "uuid4 r =
    (((r AND NOT (push_bit 48 0xc000)) OR push_bit 48 0x8000)
       AND NOT (push_bit 64 0xf000)) OR push_bit 76 4"

definition hex_digit :: "nat \<Rightarrow> char" where
  "hex_digit d = ''0123456789abcdef'' ! d"

definition hex :: "128 word \<Rightarrow> string" where
  "hex w = map (\<lambda>i. hex_digit (unat (drop_bit (4 * (31 - i)) w AND 15))) [0..<32]"

definition upper_char :: "char \<Rightarrow> char" where
  "upper_char c =
    (if of_char c \<ge> (97::nat) \<and> of_char c \<le> (122::nat) then char_of (of_char c - (32::nat)) else c)"

definition upper :: "string \<Rightarrow> string" where
  "upper cs = map upper_char cs"

definition initiate_shipment :: "128 word \<Rightarrow> string" where
  "initiate_shipment r = ''TRK-'' @ upper (take 8 (hex (uuid4 r)))"

section \<open>The order processing flow\<close>

text \<open>
  What one press of the submit button ends with: the stage that stopped the script and
  its message, an uncaught exception, or the tracking id and the delivery message.
  The pauses and the calls that only display a message are left out. The script passes
  \<^verbatim>\<open>total_amount\<close> to \<^verbatim>\<open>process_payment\<close>, the value it stored in the order
  under the same name.
\<close>

datatype outcome =
    ValidationFailed string
  | InventoryFailed string
  | PaymentFailed string
  | Uncaught py_error
  | Delivered string string

definition submit_order :: "128 word \<Rightarrow> order \<Rightarrow> state \<Rightarrow> outcome \<times> state" where
  "submit_order r ord s =
    (case validate_order ord s of
       (False, msg) \<Rightarrow> (ValidationFailed msg, s)
     | (True, _) \<Rightarrow>
         let s1 = s\<lparr>PROCESSED_ORDERS := insert (order_id ord) (PROCESSED_ORDERS s)\<rparr> in
         (case check_inventory ord s1 of
            Inl e \<Rightarrow> (Uncaught e, s1)
          | Inr (False, msg) \<Rightarrow> (InventoryFailed msg, s1)
          | Inr (True, _) \<Rightarrow>
              (case process_payment (total_amount ord) of
                 (False, msg) \<Rightarrow> (PaymentFailed msg, s1)
               | (True, _) \<Rightarrow>
                   (case fulfill_order ord s1 of
                      (Inl e, s2) \<Rightarrow> (Uncaught e, s2)
                    | (Inr _, s2) \<Rightarrow> (Delivered (initiate_shipment r) confirm_delivery, s2)))))"

text \<open>
  The flow applied to a list of submissions, each on the globals that the one before
  left. An execution of the script is the case of at most one submission
  (\<open>execute_script\<close> below); longer lists describe a process that kept its globals
  between submissions, so a property proved for every list holds for the script in
  particular.
\<close>

fun run :: "(128 word \<times> order) list \<Rightarrow> state \<Rightarrow> state" where
  "run [] s = s"
| "run ((r, ord) # subs) s = run subs (snd (submit_order r ord s))"

subsection \<open>One execution of the script\<close>

text \<open>
  Streamlit executes \<^verbatim>\<open>app.py\<close> from its first line on every interaction. Each
  execution therefore begins by binding \<^verbatim>\<open>PROCESSED_ORDERS = set()\<close> and the
  \<^verbatim>\<open>PRODUCTS\<close> literal anew, which is \<open>initial_state\<close>; only what the script puts
  into \<^verbatim>\<open>st.session_state\<close>, the selected product of the details view, outlives
  an execution. The execution then draws the order id, reads the product and the quantity
  from the widgets, looks the product up for its price and, when the submit button was
  pressed, builds the order and runs the flow. \<open>execute_script\<close> is the execution in
  which the button was pressed; its parameters are the random bytes of the two
  \<^verbatim>\<open>uuid.uuid4()\<close> calls and the values of the two widgets.
\<close>

definition new_order_id :: "128 word \<Rightarrow> string" where
  "new_order_id r = ''ORD-'' @ upper (take 6 (hex (uuid4 r)))"

definition execute_script :: "128 word \<Rightarrow> 128 word \<Rightarrow> string \<Rightarrow> int \<Rightarrow> outcome \<times> state" where
  "execute_script id_bytes tracking_bytes pid qty =
    (let s = initial_state in
     case PRODUCTS s pid of
       None \<Rightarrow> (Uncaught KeyError, s)
     | Some selected_product \<Rightarrow>
         submit_order tracking_bytes
           \<lparr>order_id = new_order_id id_bytes, product_id = pid, quantity = qty,
            total_amount = price selected_product * qty, delivery_zone = Some ''IN''\<rparr> s)"

subsection \<open>Upper-case alphanumeric characters\<close>

text \<open>The ASCII digits and upper-case letters.\<close>

definition is_upper_alnum :: "char \<Rightarrow> bool" where
  "is_upper_alnum c \<longleftrightarrow> c \<in> set ''0123456789ABCDEFGHIJKLMNOPQRSTUVWXYZ''"

section \<open>Order validation\<close>

text \<open>
  The checks of \<^verbatim>\<open>validate_order\<close> run in a fixed order and the first failure
  decides the answer, so an order over the amount ceiling whose quantity is below the
  minimum is rejected for its quantity, not for its amount.
\<close>

theorem validate_order_amount_counterexample:
  "total_amount \<lparr>order_id = ''ORD-A1B2C3'', product_id = ''P004'', quantity = 0,
      total_amount = 5999, delivery_zone = Some ''IN''\<rparr> > 5000
   \<and> validate_order \<lparr>order_id = ''ORD-A1B2C3'', product_id = ''P004'', quantity = 0,
      total_amount = 5999, delivery_zone = Some ''IN''\<rparr> initial_state
     = (False, ''Order quantity below minimum threshold'')
   \<and> validate_order \<lparr>order_id = ''ORD-A1B2C3'', product_id = ''P004'', quantity = 0,
      total_amount = 5999, delivery_zone = Some ''IN''\<rparr> initial_state
     \<noteq> (False, ''Order amount exceeds risk threshold'')"
  by (simp add: validate_order_def initial_state_def MIN_ORDER_QUANTITY_def)

text \<open>
  C1, as amended. \<^verbatim>\<open>validate_order\<close> returns
  \<^verbatim>\<open>(False, "Order amount exceeds risk threshold")\<close> exactly for the orders
  whose order id is non-empty and not in the processed set, whose quantity is at least 1
  and whose total amount exceeds 5000; the delivery zone plays no part.
\<close>

theorem validate_order_amount:
  "validate_order ord s = (False, ''Order amount exceeds risk threshold'')
   \<longleftrightarrow> order_id ord \<noteq> [] \<and> order_id ord \<notin> PROCESSED_ORDERS s
       \<and> quantity ord \<ge> 1 \<and> total_amount ord > 5000"
  by (simp add: validate_order_def MIN_ORDER_QUANTITY_def MAX_ORDER_AMOUNT_def)

theorem validate_order_amount_witness:
  "validate_order \<lparr>order_id = ''ORD-A1B2C3'', product_id = ''P004'', quantity = 1,
      total_amount = 5999, delivery_zone = Some ''IN''\<rparr> initial_state
     = (False, ''Order amount exceeds risk threshold'')"
  using validate_order_amount [of "\<lparr>order_id = ''ORD-A1B2C3'', product_id = ''P004'',
      quantity = 1, total_amount = 5999, delivery_zone = Some ''IN''\<rparr>" initial_state]
  by (simp add: initial_state_def)

text \<open>
  An order with an empty order id and quantity 0 is rejected for its id: the id check
  comes before the quantity check.
\<close>

theorem validate_order_quantity_counterexample:
  "quantity \<lparr>order_id = '''', product_id = ''P001'', quantity = 0,
      total_amount = 0, delivery_zone = Some ''IN''\<rparr> < 1
   \<and> validate_order \<lparr>order_id = '''', product_id = ''P001'', quantity = 0,
      total_amount = 0, delivery_zone = Some ''IN''\<rparr> initial_state
     = (False, ''Invalid Order ID'')
   \<and> validate_order \<lparr>order_id = '''', product_id = ''P001'', quantity = 0,
      total_amount = 0, delivery_zone = Some ''IN''\<rparr> initial_state
     \<noteq> (False, ''Order quantity below minimum threshold'')"
  by (simp add: validate_order_def)

text \<open>
  C2, as amended. \<^verbatim>\<open>validate_order\<close> returns
  \<^verbatim>\<open>(False, "Order quantity below minimum threshold")\<close> exactly for the orders
  whose order id is non-empty and not in the processed set and whose quantity is below 1;
  the total amount and the delivery zone play no part.
\<close>

theorem validate_order_quantity:
  "validate_order ord s = (False, ''Order quantity below minimum threshold'')
   \<longleftrightarrow> order_id ord \<noteq> [] \<and> order_id ord \<notin> PROCESSED_ORDERS s \<and> quantity ord < 1"
  by (simp add: validate_order_def MIN_ORDER_QUANTITY_def)

theorem validate_order_quantity_witness:
  "validate_order \<lparr>order_id = ''ORD-A1B2C3'', product_id = ''P004'', quantity = 0,
      total_amount = 5999, delivery_zone = None\<rparr> initial_state
     = (False, ''Order quantity below minimum threshold'')"
  using validate_order_quantity [of "\<lparr>order_id = ''ORD-A1B2C3'', product_id = ''P004'',
      quantity = 0, total_amount = 5999, delivery_zone = None\<rparr>" initial_state]
  by (simp add: initial_state_def)

section \<open>Inventory check\<close>

text \<open>
  \<^verbatim>\<open>check_inventory\<close> compares with \<^verbatim>\<open>>=\<close> and does not look at the sign
  of the quantity: the USB-C charger has stock 0, and a request for 0 units of it is
  answered with \<^verbatim>\<open>(True, "Stock available (0 units)")\<close>. Quantities below 1 are
  stopped earlier, by \<^verbatim>\<open>validate_order\<close>.
\<close>

theorem check_inventory_zero_stock_counterexample:
  "map_option stock (PRODUCTS initial_state ''P003'') = Some 0
   \<and> check_inventory \<lparr>order_id = ''ORD-A1B2C3'', product_id = ''P003'', quantity = 0,
        total_amount = 0, delivery_zone = Some ''IN''\<rparr> initial_state
      = Inr (True, ''Stock available (0 units)'')
   \<and> check_inventory \<lparr>order_id = ''ORD-A1B2C3'', product_id = ''P003'', quantity = 0,
        total_amount = 0, delivery_zone = Some ''IN''\<rparr> initial_state
      \<noteq> Inr (False, ''Out of stock'')"
  by (simp add: check_inventory_def initial_state_def initial_catalog_def str_int_def
      str_nat.simps digit_char_def)

text \<open>
  C3, as amended. For a product of the catalog with stock 0 and every requested quantity
  of at least 1, \<^verbatim>\<open>check_inventory\<close> returns \<^verbatim>\<open>(False, "Out of stock")\<close>.
  In general it returns \<^verbatim>\<open>True\<close> with the message
  \<^verbatim>\<open>"Stock available (<stock> units)"\<close> when the stock is at least the requested
  quantity, and \<^verbatim>\<open>(False, "Out of stock")\<close> when it is less.
\<close>

theorem check_inventory_result:
  assumes "PRODUCTS s (product_id ord) = Some p"
  shows "(stock p = 0 \<and> quantity ord \<ge> 1 \<longrightarrow> check_inventory ord s = Inr (False, ''Out of stock''))
       \<and> (stock p \<ge> quantity ord \<longrightarrow>
            check_inventory ord s = Inr (True, ''Stock available ('' @ str_int (stock p) @ '' units)''))
       \<and> (stock p < quantity ord \<longrightarrow> check_inventory ord s = Inr (False, ''Out of stock''))"
  using assms by (simp add: check_inventory_def)

theorem check_inventory_result_witness:
  "check_inventory \<lparr>order_id = ''ORD-A1B2C3'', product_id = ''P003'', quantity = 1,
        total_amount = 999, delivery_zone = Some ''IN''\<rparr> initial_state
      = Inr (False, ''Out of stock'')
   \<and> check_inventory \<lparr>order_id = ''ORD-A1B2C3'', product_id = ''P001'', quantity = 2,
        total_amount = 1598, delivery_zone = Some ''IN''\<rparr> initial_state
      = Inr (True, ''Stock available (15 units)'')"
proof -
  have c: "PRODUCTS initial_state ''P003'' = Some \<lparr>name = ''USB-C Charger'', price = 999, stock = 0,
        image_url = ''https://cdn-icons-png.flaticon.com/512/2910/2910768.png'',
        description = ''Fast charging USB-C charger compatible with phones and laptops.''\<rparr>"
    by (simp add: initial_state_def initial_catalog_def)
  have m: "PRODUCTS initial_state ''P001'' = Some \<lparr>name = ''Wireless Mouse'', price = 799, stock = 15,
        image_url = ''https://cdn-icons-png.flaticon.com/512/2919/2919592.png'',
        description = ''Ergonomic wireless mouse with adjustable DPI and long battery life.''\<rparr>"
    by (simp add: initial_state_def initial_catalog_def)
  have d: "str_int 15 = ''15''"
    by (simp add: str_int_def str_nat.simps digit_char_def)
  show ?thesis
    using check_inventory_result [of initial_state "\<lparr>order_id = ''ORD-A1B2C3'', product_id = ''P003'',
        quantity = 1, total_amount = 999, delivery_zone = Some ''IN''\<rparr>", simplified, OF c]
      check_inventory_result [of initial_state "\<lparr>order_id = ''ORD-A1B2C3'', product_id = ''P001'',
        quantity = 2, total_amount = 1598, delivery_zone = Some ''IN''\<rparr>", simplified, OF m]
    by (simp add: d)
qed

text \<open>
  C8. The lookup in \<^verbatim>\<open>check_inventory\<close> is unguarded: for an order whose product id
  is not a key of the catalog the call ends in \<^verbatim>\<open>KeyError\<close>, and for an order
  whose product id is a key it returns a pair and raises nothing.
\<close>

theorem check_inventory_lookup:
  "(product_id ord \<notin> dom (PRODUCTS s) \<longrightarrow> check_inventory ord s = Inl KeyError)
   \<and> (product_id ord \<in> dom (PRODUCTS s) \<longrightarrow> (\<exists>ok msg. check_inventory ord s = Inr (ok, msg)))"
  by (auto simp: check_inventory_def split: option.splits)

theorem check_inventory_lookup_witness:
  "''P999'' \<notin> dom (PRODUCTS initial_state)
   \<and> check_inventory \<lparr>order_id = ''ORD-A1B2C3'', product_id = ''P999'', quantity = 1,
        total_amount = 100, delivery_zone = Some ''IN''\<rparr> initial_state = Inl KeyError
   \<and> ''P002'' \<in> dom (PRODUCTS initial_state)
   \<and> (\<exists>ok msg. check_inventory \<lparr>order_id = ''ORD-A1B2C3'', product_id = ''P002'', quantity = 1,
        total_amount = 2499, delivery_zone = Some ''IN''\<rparr> initial_state = Inr (ok, msg))"
proof -
  have a: "''P999'' \<notin> dom (PRODUCTS initial_state)"
    by (simp add: initial_state_def initial_catalog_def dom_def)
  have b: "''P002'' \<in> dom (PRODUCTS initial_state)"
    by (simp add: initial_state_def initial_catalog_def dom_def)
  show ?thesis
    using a b
      check_inventory_lookup [of "\<lparr>order_id = ''ORD-A1B2C3'', product_id = ''P999'', quantity = 1,
        total_amount = 100, delivery_zone = Some ''IN''\<rparr>" initial_state]
      check_inventory_lookup [of "\<lparr>order_id = ''ORD-A1B2C3'', product_id = ''P002'', quantity = 1,
        total_amount = 2499, delivery_zone = Some ''IN''\<rparr>" initial_state]
    by simp
qed

section \<open>Payment\<close>

text \<open>
  C4. \<^verbatim>\<open>process_payment\<close> approves exactly the amounts of at most 5000, the ceiling
  of \<^verbatim>\<open>validate_order\<close>. An order that \<^verbatim>\<open>validate_order\<close> accepts is therefore
  always approved, and no submission ends at the payment stage.
\<close>

theorem process_payment_unreachable_failure:
  "(process_payment amount = (True, ''Payment successful'') \<longleftrightarrow> amount \<le> 5000)
   \<and> (process_payment amount = (False, ''Payment failed due to risk threshold'') \<longleftrightarrow> amount > 5000)
   \<and> (fst (validate_order ord s) \<longrightarrow> process_payment (total_amount ord) = (True, ''Payment successful''))
   \<and> fst (submit_order r ord s) \<noteq> PaymentFailed msg"
  by (auto simp: process_payment_def validate_order_def submit_order_def MAX_ORDER_AMOUNT_def Let_def
      split: if_splits sum.splits prod.splits bool.splits)

theorem process_payment_unreachable_failure_witness:
  "fst (validate_order \<lparr>order_id = ''ORD-A1B2C3'', product_id = ''P001'', quantity = 2,
        total_amount = 1598, delivery_zone = Some ''IN''\<rparr> initial_state)
   \<and> process_payment 1598 = (True, ''Payment successful'')"
  using process_payment_unreachable_failure [of 1598 "\<lparr>order_id = ''ORD-A1B2C3'', product_id = ''P001'',
        quantity = 2, total_amount = 1598, delivery_zone = Some ''IN''\<rparr>" initial_state]
  by (simp add: validate_order_def initial_state_def MIN_ORDER_QUANTITY_def MAX_ORDER_AMOUNT_def
      SERVICEABLE_ZONES_def)

section \<open>Fulfillment\<close>

text \<open>
  \<^verbatim>\<open>fulfill_order\<close> looks the product up without a guard, as
  \<^verbatim>\<open>check_inventory\<close> does: on a product id that is not in the catalog it raises
  \<^verbatim>\<open>KeyError\<close> and returns no message.
\<close>

theorem fulfill_order_failure_counterexample:
  "fulfill_order \<lparr>order_id = ''ORD-A1B2C3'', product_id = ''P999'', quantity = 1,
        total_amount = 100, delivery_zone = Some ''IN''\<rparr> initial_state
     = (Inl KeyError, initial_state)
   \<and> fst (fulfill_order \<lparr>order_id = ''ORD-A1B2C3'', product_id = ''P999'', quantity = 1,
        total_amount = 100, delivery_zone = Some ''IN''\<rparr> initial_state)
     \<noteq> Inr ''Order packed successfully''"
  by (simp add: fulfill_order_def initial_state_def initial_catalog_def)

text \<open>
  C7, as amended. For every order whose product id is a key of the catalog,
  \<^verbatim>\<open>fulfill_order\<close> returns \<^verbatim>\<open>"Order packed successfully"\<close> and leaves
  the product with its old stock minus the order's quantity; a second call for the same
  order returns the same message and subtracts the quantity a second time.
\<close>

theorem fulfill_order_decrements:
  assumes "PRODUCTS s (product_id ord) = Some p"
  shows "fst (fulfill_order ord s) = Inr ''Order packed successfully''
       \<and> PRODUCTS (snd (fulfill_order ord s)) (product_id ord)
           = Some (p\<lparr>stock := stock p - quantity ord\<rparr>)
       \<and> fst (fulfill_order ord (snd (fulfill_order ord s))) = Inr ''Order packed successfully''
       \<and> PRODUCTS (snd (fulfill_order ord (snd (fulfill_order ord s)))) (product_id ord)
           = Some (p\<lparr>stock := stock p - quantity ord - quantity ord\<rparr>)"
  using assms by (simp add: fulfill_order_def)

theorem fulfill_order_decrements_witness:
  "map_option stock (PRODUCTS initial_state ''P001'') = Some 15
   \<and> fst (fulfill_order \<lparr>order_id = ''ORD-A1B2C3'', product_id = ''P001'', quantity = 2,
        total_amount = 1598, delivery_zone = Some ''IN''\<rparr> initial_state)
      = Inr ''Order packed successfully''
   \<and> map_option stock (PRODUCTS (snd (fulfill_order \<lparr>order_id = ''ORD-A1B2C3'', product_id = ''P001'',
        quantity = 2, total_amount = 1598, delivery_zone = Some ''IN''\<rparr> initial_state)) ''P001'')
      = Some 13
   \<and> map_option stock (PRODUCTS (snd (fulfill_order \<lparr>order_id = ''ORD-A1B2C3'', product_id = ''P001'',
        quantity = 2, total_amount = 1598, delivery_zone = Some ''IN''\<rparr>
        (snd (fulfill_order \<lparr>order_id = ''ORD-A1B2C3'', product_id = ''P001'',
        quantity = 2, total_amount = 1598, delivery_zone = Some ''IN''\<rparr> initial_state)))) ''P001'')
      = Some 11"
proof -
  have m: "PRODUCTS initial_state ''P001'' = Some \<lparr>name = ''Wireless Mouse'', price = 799, stock = 15,
        image_url = ''https://cdn-icons-png.flaticon.com/512/2919/2919592.png'',
        description = ''Ergonomic wireless mouse with adjustable DPI and long battery life.''\<rparr>"
    by (simp add: initial_state_def initial_catalog_def)
  show ?thesis
    using m fulfill_order_decrements [of initial_state "\<lparr>order_id = ''ORD-A1B2C3'', product_id = ''P001'',
        quantity = 2, total_amount = 1598, delivery_zone = Some ''IN''\<rparr>", simplified, OF m]
    by simp
qed

text \<open>
  C10. \<^verbatim>\<open>fulfill_order\<close> changes nothing but the stock of the product the order
  names: the processed set, the keys of the catalog, every other product, and the name,
  price, image and description of the named product are the same after the call as
  before it, whether it returns or raises.
\<close>

theorem fulfill_order_frame:
  assumes "s' = snd (fulfill_order ord s)"
  shows "PROCESSED_ORDERS s' = PROCESSED_ORDERS s
       \<and> dom (PRODUCTS s') = dom (PRODUCTS s)
       \<and> (\<forall>pid. pid \<noteq> product_id ord \<longrightarrow> PRODUCTS s' pid = PRODUCTS s pid)
       \<and> map_option name (PRODUCTS s' (product_id ord)) = map_option name (PRODUCTS s (product_id ord))
       \<and> map_option price (PRODUCTS s' (product_id ord)) = map_option price (PRODUCTS s (product_id ord))
       \<and> map_option image_url (PRODUCTS s' (product_id ord))
           = map_option image_url (PRODUCTS s (product_id ord))
       \<and> map_option description (PRODUCTS s' (product_id ord))
           = map_option description (PRODUCTS s (product_id ord))"
  using assms by (auto simp: fulfill_order_def split: option.splits)

theorem fulfill_order_frame_witness:
  "PRODUCTS (snd (fulfill_order \<lparr>order_id = ''ORD-A1B2C3'', product_id = ''P001'', quantity = 2,
        total_amount = 1598, delivery_zone = Some ''IN''\<rparr> initial_state)) ''P002''
     = PRODUCTS initial_state ''P002''
   \<and> ''P002'' \<noteq> ''P001''
   \<and> map_option price (PRODUCTS (snd (fulfill_order \<lparr>order_id = ''ORD-A1B2C3'', product_id = ''P001'',
        quantity = 2, total_amount = 1598, delivery_zone = Some ''IN''\<rparr> initial_state)) ''P001'')
     = Some 799"
proof -
  have m: "map_option price (PRODUCTS initial_state ''P001'') = Some 799"
    by (simp add: initial_state_def initial_catalog_def)
  show ?thesis
    using m fulfill_order_frame [of "snd (fulfill_order \<lparr>order_id = ''ORD-A1B2C3'', product_id = ''P001'',
        quantity = 2, total_amount = 1598, delivery_zone = Some ''IN''\<rparr> initial_state)"
        "\<lparr>order_id = ''ORD-A1B2C3'', product_id = ''P001'',
        quantity = 2, total_amount = 1598, delivery_zone = Some ''IN''\<rparr>" initial_state]
    by simp
qed

section \<open>Duplicate orders\<close>

text \<open>
  The duplicate check of \<^verbatim>\<open>validate_order\<close> itself does what it says: a
  non-empty order id that is in the processed set is rejected as a duplicate.
\<close>

lemma validate_order_duplicate:
  "order_id ord \<noteq> [] \<Longrightarrow> order_id ord \<in> PROCESSED_ORDERS s
   \<Longrightarrow> validate_order ord s = (False, ''Duplicate order detected'')"
  by (simp add: validate_order_def)

lemma submit_order_PROCESSED:
  "PROCESSED_ORDERS (snd (submit_order r ord s)) =
     (if fst (validate_order ord s) then insert (order_id ord) (PROCESSED_ORDERS s)
      else PROCESSED_ORDERS s)"
  by (auto simp: submit_order_def fulfill_order_def Let_def
      split: prod.splits bool.splits sum.splits option.splits)

text \<open>
  The set it consults, however, is empty whenever the script calls it: no order is a
  duplicate on the globals an execution starts with, and no execution ends with the
  duplicate message.
\<close>

lemma validate_order_initial_state:
  "validate_order ord initial_state \<noteq> (False, ''Duplicate order detected'')"
  by (simp add: validate_order_def initial_state_def)

lemma execute_script_never_duplicate:
  "fst (execute_script id_bytes tracking_bytes pid qty)
     \<noteq> ValidationFailed ''Duplicate order detected''"
  by (auto simp: execute_script_def submit_order_def validate_order_def initial_state_def Let_def
      split: option.splits prod.splits bool.splits sum.splits if_splits)

lemma execute_script_run:
  "snd (execute_script id_bytes tracking_bytes pid qty) = run [] initial_state
   \<or> (\<exists>ord. snd (execute_script id_bytes tracking_bytes pid qty)
         = run [(tracking_bytes, ord)] initial_state)"
  by (auto simp: execute_script_def Let_def split: option.splits)

text \<open>
  C5, at an input where the code departs from it. Two executions of the script draw
  random bytes with the same leading 24 bits, so both build the order id
  \<^verbatim>\<open>ORD-DEADBE\<close>, for two Wireless Mice each. The first execution validates the
  order, puts its id into the processed set and delivers. The second execution finds the
  set empty again: the same id is validated a second time and the order is delivered a
  second time, where the claim has \<^verbatim>\<open>(False, "Duplicate order detected")\<close>.
\<close>

theorem resubmitted_order_validated_again:
  "execute_script 0xdeadbeef0123456789abcdef01234567 0x0a1b2c3d000000000000000000000000 ''P001'' 2
     = (Delivered ''TRK-0A1B2C3D'' ''Order delivered successfully'',
        \<lparr>PRODUCTS = (map_of initial_catalog)(''P001'' \<mapsto>
           \<lparr>name = ''Wireless Mouse'', price = 799, stock = 13,
            image_url = ''https://cdn-icons-png.flaticon.com/512/2919/2919592.png'',
            description = ''Ergonomic wireless mouse with adjustable DPI and long battery life.''\<rparr>),
         PROCESSED_ORDERS = {''ORD-DEADBE''}\<rparr>)
   \<and> new_order_id 0xdeadbe00ffffffffffffffffffffffff = ''ORD-DEADBE''
   \<and> validate_order \<lparr>order_id = ''ORD-DEADBE'', product_id = ''P001'', quantity = 2,
        total_amount = 1598, delivery_zone = Some ''IN''\<rparr> initial_state
       = (True, ''Order validated successfully'')
   \<and> fst (execute_script 0xdeadbe00ffffffffffffffffffffffff 0x4e5f6a7b000000000000000000000000
        ''P001'' 2)
       = Delivered ''TRK-4E5F6A7B'' ''Order delivered successfully''
   \<and> PROCESSED_ORDERS (snd (execute_script 0xdeadbe00ffffffffffffffffffffffff
        0x4e5f6a7b000000000000000000000000 ''P001'' 2)) = {''ORD-DEADBE''}"
proof -
  have id1: "new_order_id 0xdeadbeef0123456789abcdef01234567 = ''ORD-DEADBE''"
    by code_simp
  have id2: "new_order_id 0xdeadbe00ffffffffffffffffffffffff = ''ORD-DEADBE''"
    by code_simp
  have t1: "initiate_shipment 0x0a1b2c3d000000000000000000000000 = ''TRK-0A1B2C3D''"
    by code_simp
  have t2: "initiate_shipment 0x4e5f6a7b000000000000000000000000 = ''TRK-4E5F6A7B''"
    by code_simp
  have v: "validate_order \<lparr>order_id = ''ORD-DEADBE'', product_id = ''P001'', quantity = 2,
        total_amount = 1598, delivery_zone = Some ''IN''\<rparr> initial_state
       = (True, ''Order validated successfully'')"
    by (simp add: validate_order_def initial_state_def MIN_ORDER_QUANTITY_def
        MAX_ORDER_AMOUNT_def SERVICEABLE_ZONES_def)
  have run1: "execute_script 0xdeadbeef0123456789abcdef01234567
        0x0a1b2c3d000000000000000000000000 ''P001'' 2
     = (Delivered ''TRK-0A1B2C3D'' ''Order delivered successfully'',
        \<lparr>PRODUCTS = (map_of initial_catalog)(''P001'' \<mapsto>
           \<lparr>name = ''Wireless Mouse'', price = 799, stock = 13,
            image_url = ''https://cdn-icons-png.flaticon.com/512/2919/2919592.png'',
            description = ''Ergonomic wireless mouse with adjustable DPI and long battery life.''\<rparr>),
         PROCESSED_ORDERS = {''ORD-DEADBE''}\<rparr>)"
    by (simp add: execute_script_def submit_order_def validate_order_def check_inventory_def
        process_payment_def fulfill_order_def confirm_delivery_def initial_state_def
        initial_catalog_def MIN_ORDER_QUANTITY_def MAX_ORDER_AMOUNT_def SERVICEABLE_ZONES_def
        id1 t1)
  have run2: "execute_script 0xdeadbe00ffffffffffffffffffffffff
        0x4e5f6a7b000000000000000000000000 ''P001'' 2
     = (Delivered ''TRK-4E5F6A7B'' ''Order delivered successfully'',
        \<lparr>PRODUCTS = (map_of initial_catalog)(''P001'' \<mapsto>
           \<lparr>name = ''Wireless Mouse'', price = 799, stock = 13,
            image_url = ''https://cdn-icons-png.flaticon.com/512/2919/2919592.png'',
            description = ''Ergonomic wireless mouse with adjustable DPI and long battery life.''\<rparr>),
         PROCESSED_ORDERS = {''ORD-DEADBE''}\<rparr>)"
    by (simp add: execute_script_def submit_order_def validate_order_def check_inventory_def
        process_payment_def fulfill_order_def confirm_delivery_def initial_state_def
        initial_catalog_def MIN_ORDER_QUANTITY_def MAX_ORDER_AMOUNT_def SERVICEABLE_ZONES_def
        id2 t2)
  show ?thesis
    by (simp add: run1 run2 id2 v)
qed

section \<open>Stock over a run\<close>

lemma submit_order_stock:
  assumes "\<And>pid p. PRODUCTS s pid = Some p \<Longrightarrow> 0 \<le> stock p"
    and "PRODUCTS (snd (submit_order r ord s)) pid = Some p"
  shows "0 \<le> stock p"
  using assms
  by (auto simp: submit_order_def check_inventory_def fulfill_order_def Let_def
      split: prod.splits bool.splits sum.splits option.splits if_splits)

lemma run_stock:
  assumes "\<And>pid p. PRODUCTS s pid = Some p \<Longrightarrow> 0 \<le> stock p"
    and "PRODUCTS (run subs s) pid = Some p"
  shows "0 \<le> stock p"
  using assms
proof (induction subs arbitrary: s)
  case Nil
  then show ?case by simp
next
  case (Cons sub subs)
  obtain r ord where sub: "sub = (r, ord)" by (cases sub)
  have "\<And>pid p. PRODUCTS (snd (submit_order r ord s)) pid = Some p \<Longrightarrow> 0 \<le> stock p"
    using Cons.prems(1) by (rule submit_order_stock)
  then show ?case using Cons.IH [of "snd (submit_order r ord s)"] Cons.prems(2) sub by simp
qed

lemma initial_stock: "PRODUCTS initial_state pid = Some p \<Longrightarrow> 0 \<le> stock p"
  by (auto simp: initial_state_def initial_catalog_def split: if_splits)

text \<open>
  C6. In every state that a run of submissions reaches from the initial state, the stock
  of every product is non-negative. A submission reaches \<^verbatim>\<open>fulfill_order\<close>
  (it ends delivered, or it changes the catalog) only when \<^verbatim>\<open>check_inventory\<close>
  has answered \<^verbatim>\<open>True\<close> for the order in the same pass, that is when the
  product's stock is at least the order's quantity, and then it subtracts exactly that
  quantity.
\<close>

theorem stock_never_negative:
  assumes "s = run subs initial_state"
  shows "(\<forall>pid p. PRODUCTS s pid = Some p \<longrightarrow> 0 \<le> stock p)
       \<and> (PRODUCTS (snd (submit_order r ord s)) \<noteq> PRODUCTS s
            \<or> (\<exists>t m. fst (submit_order r ord s) = Delivered t m) \<longrightarrow>
            (\<exists>p msg. PRODUCTS s (product_id ord) = Some p \<and> quantity ord \<le> stock p
               \<and> check_inventory ord (s\<lparr>PROCESSED_ORDERS := insert (order_id ord) (PROCESSED_ORDERS s)\<rparr>)
                   = Inr (True, msg)
               \<and> PRODUCTS (snd (submit_order r ord s))
                   = (PRODUCTS s)(product_id ord \<mapsto> p\<lparr>stock := stock p - quantity ord\<rparr>)))"
proof -
  have inv: "\<forall>pid p. PRODUCTS s pid = Some p \<longrightarrow> 0 \<le> stock p"
    using assms run_stock [of initial_state subs] initial_stock by blast
  have reach: "PRODUCTS (snd (submit_order r ord s)) \<noteq> PRODUCTS s
            \<or> (\<exists>t m. fst (submit_order r ord s) = Delivered t m) \<longrightarrow>
            (\<exists>p msg. PRODUCTS s (product_id ord) = Some p \<and> quantity ord \<le> stock p
               \<and> check_inventory ord (s\<lparr>PROCESSED_ORDERS := insert (order_id ord) (PROCESSED_ORDERS s)\<rparr>)
                   = Inr (True, msg)
               \<and> PRODUCTS (snd (submit_order r ord s))
                   = (PRODUCTS s)(product_id ord \<mapsto> p\<lparr>stock := stock p - quantity ord\<rparr>))"
    by (auto simp: submit_order_def check_inventory_def fulfill_order_def Let_def
        split: prod.splits bool.splits sum.splits option.splits if_splits)
  show ?thesis using inv reach by (rule conjI)
qed

theorem stock_never_negative_witness:
  "PRODUCTS (run [(0, \<lparr>order_id = ''ORD-A1B2C3'', product_id = ''P001'', quantity = 2,
        total_amount = 1598, delivery_zone = Some ''IN''\<rparr>)] initial_state) ''P001''
     = Some \<lparr>name = ''Wireless Mouse'', price = 799, stock = 13,
        image_url = ''https://cdn-icons-png.flaticon.com/512/2919/2919592.png'',
        description = ''Ergonomic wireless mouse with adjustable DPI and long battery life.''\<rparr>
   \<and> 0 \<le> stock \<lparr>name = ''Wireless Mouse'', price = 799, stock = 13,
        image_url = ''https://cdn-icons-png.flaticon.com/512/2919/2919592.png'',
        description = ''Ergonomic wireless mouse with adjustable DPI and long battery life.''\<rparr>
   \<and> PRODUCTS (snd (submit_order 0 \<lparr>order_id = ''ORD-A1B2C3'', product_id = ''P001'', quantity = 2,
        total_amount = 1598, delivery_zone = Some ''IN''\<rparr> (run [] initial_state)))
       \<noteq> PRODUCTS (run [] initial_state)"
proof -
  let ?o = "\<lparr>order_id = ''ORD-A1B2C3'', product_id = ''P001'', quantity = 2,
        total_amount = 1598, delivery_zone = Some ''IN''\<rparr>"
  let ?p = "\<lparr>name = ''Wireless Mouse'', price = 799, stock = 13,
        image_url = ''https://cdn-icons-png.flaticon.com/512/2919/2919592.png'',
        description = ''Ergonomic wireless mouse with adjustable DPI and long battery life.''\<rparr>"
  have st: "PRODUCTS (snd (submit_order 0 ?o initial_state)) ''P001'' = Some ?p"
    by (simp add: submit_order_def validate_order_def check_inventory_def process_payment_def
        fulfill_order_def initial_state_def initial_catalog_def MIN_ORDER_QUANTITY_def
        MAX_ORDER_AMOUNT_def SERVICEABLE_ZONES_def)
  have ini: "PRODUCTS initial_state ''P001'' \<noteq> Some ?p"
    by (simp add: initial_state_def initial_catalog_def)
  have ne: "PRODUCTS (snd (submit_order 0 ?o initial_state)) \<noteq> PRODUCTS initial_state"
    using st ini by metis
  show ?thesis
    using st ne
      stock_never_negative [where s = "run [(0, ?o)] initial_state" and subs = "[(0, ?o)]", OF refl]
      stock_never_negative [where s = "run [] initial_state" and subs = "[]" and r = 0 and ord = ?o,
        OF refl]
    by simp
qed

section \<open>Shipment\<close>

lemma nibble_bound: "unat ((w :: 128 word) AND 15) < 16"
proof -
  have "w AND 15 \<le> 15" by (rule word_and_le1)
  then have "unat (w AND 15) \<le> unat (15 :: 128 word)" by (simp add: word_le_nat_alt)
  then show ?thesis by simp
qed

lemma upper_hex_digit: "d < 16 \<Longrightarrow> is_upper_alnum (upper_char (hex_digit d))"
proof -
  assume "d < 16"
  then have "d \<in> set [0..<16]" by simp
  moreover have "list_all (\<lambda>d. is_upper_alnum (upper_char (hex_digit d))) [0..<16]"
    by code_simp
  ultimately show ?thesis
    unfolding list_all_iff by blast
qed

text \<open>
  C9. Whatever the random bytes, \<^verbatim>\<open>initiate_shipment\<close> returns the four characters
  \<^verbatim>\<open>TRK-\<close> followed by exactly 8 characters, each an ASCII digit or upper-case
  letter.
\<close>

theorem initiate_shipment_format:
  "take 4 (initiate_shipment r) = ''TRK-''
   \<and> length (drop 4 (initiate_shipment r)) = 8
   \<and> list_all is_upper_alnum (drop 4 (initiate_shipment r))"
  by (auto simp: initiate_shipment_def upper_def hex_def list_all_iff take_map
      intro!: upper_hex_digit nibble_bound)

theorem initiate_shipment_format_witness:
  "initiate_shipment 0xdeadbeef0123456789abcdef01234567 = ''TRK-DEADBEEF''
   \<and> list_all is_upper_alnum ''DEADBEEF''"
proof -
  have e: "initiate_shipment 0xdeadbeef0123456789abcdef01234567 = ''TRK-DEADBEEF''"
    by code_simp
  show ?thesis
    using initiate_shipment_format [of "0xdeadbeef0123456789abcdef01234567"]
    by (simp add: e)
qed

end
